theory Spec2Isabelle
  imports Complex_Main
begin

section \<open>Values shared by the account manager and the client\<close>

text \<open>
  The exceptions the two modules raise or let through. \<open>ValueError\<close> carries the
  formatted message of the \<^verbatim>\<open>raise ValueError(f"...")\<close> statements, \<open>IndexError\<close> is
  Python's error for \<^verbatim>\<open>xs[0]\<close> on an empty list, \<open>NameError\<close> the one for a name that is
  not bound (it carries the name), and \<open>ExternalError\<close> stands for any exception of a
  collaborator (algod, kmd, the composer) that the code lets propagate.
\<close>

datatype error = ValueError string | IndexError | NameError string | ExternalError string

text \<open>
  algosdk's \<^verbatim>\<open>TransactionSigner\<close>: \<^verbatim>\<open>AccountTransactionSigner(sk)\<close> is the one class
  the source constructs itself; every other implementation of the interface is
  \<open>ExternalSigner\<close>. Signer objects define neither \<^verbatim>\<open>__bool__\<close> nor \<^verbatim>\<open>__len__\<close>, so
  each of them is truthy; two signers are compared as values.
\<close>

datatype 'x transaction_signer = AccountTransactionSigner string | ExternalSigner 'x

text \<open>\<^verbatim>\<open>@dataclass class AddrAndSigner: addr: str; signer: TransactionSigner\<close>\<close>

record 'x addr_and_signer =
  addr :: string
  signer :: "'x transaction_signer"

text \<open>
  Python's \<^verbatim>\<open>a or b\<close> on two optional objects whose non-\<^verbatim>\<open>None\<close> values are all
  truthy: the first operand unless it is \<^verbatim>\<open>None\<close>.
\<close>

definition py_or :: "'a option \<Rightarrow> 'a option \<Rightarrow> 'a option" where
  "py_or a b = (case a of Some x \<Rightarrow> Some x | None \<Rightarrow> b)"

section \<open>account\_manager.py: the signer registry\<close>

text \<open>
  The mutable fields of \<^verbatim>\<open>AccountManager\<close>: \<^verbatim>\<open>_accounts\<close> (a dict from sender
  address to signer) and \<^verbatim>\<open>_default_signer\<close> (\<^verbatim>\<open>None\<close> until set). Every method takes
  the manager last and returns it, updated where the method assigns to a field.
\<close>

record 'x account_manager =
  accounts :: "string \<rightharpoonup> 'x transaction_signer"
  default_signer :: "'x transaction_signer option"

definition new_account_manager :: "'x account_manager" where
  "new_account_manager = \<lparr>accounts = Map.empty, default_signer = None\<rparr>"

definition set_default_signer ::
  "'x transaction_signer \<Rightarrow> 'x account_manager \<Rightarrow> 'x account_manager" where
  "set_default_signer sg am = am\<lparr>default_signer := Some sg\<rparr>"

definition set_signer ::
  "string \<Rightarrow> 'x transaction_signer \<Rightarrow> 'x account_manager \<Rightarrow> 'x account_manager" where
  "set_signer sender sg am = am\<lparr>accounts := (accounts am)(sender \<mapsto> sg)\<rparr>"

text \<open>
  \<^verbatim>\<open>signer = self._accounts.get(sender, None) or self._default_signer\<close>, then
  \<^verbatim>\<open>if not signer: raise ValueError(f"No signer found for address {sender}")\<close>.
  The method assigns to no field, so the manager it returns is the one it was given.
\<close>

definition get_signer ::
  "string \<Rightarrow> 'x account_manager \<Rightarrow> (error + 'x transaction_signer) \<times> 'x account_manager" where
  "get_signer sender am =
     (case py_or (accounts am sender) (default_signer am) of
        None \<Rightarrow> (Inl (ValueError (''No signer found for address '' @ sender)), am)
      | Some sg \<Rightarrow> (Inr sg, am))"

text \<open>
  A caller's use of the registry between two lookups: the three methods above, in any
  order. \<open>registers a op\<close> says that \<open>op\<close> writes the entry of address \<open>a\<close>.
\<close>

datatype 'x registry_op =
    SetDefaultSigner "'x transaction_signer"
  | SetSigner string "'x transaction_signer"
  | GetSigner string

fun apply_registry_op :: "'x registry_op \<Rightarrow> 'x account_manager \<Rightarrow> 'x account_manager" where
  "apply_registry_op (SetDefaultSigner sg) am = set_default_signer sg am"
| "apply_registry_op (SetSigner sender sg) am = set_signer sender sg am"
| "apply_registry_op (GetSigner sender) am = snd (get_signer sender am)"

fun run_registry_ops :: "'x registry_op list \<Rightarrow> 'x account_manager \<Rightarrow> 'x account_manager" where
  "run_registry_ops [] am = am"
| "run_registry_ops (op # ops) am = run_registry_ops ops (apply_registry_op op am)"

fun registers :: "string \<Rightarrow> 'x registry_op \<Rightarrow> bool" where
  "registers a (SetSigner sender sg) = (sender = a)"
| "registers a _ = False"

subsection \<open>Account provisioning\<close>

text \<open>
  \<^verbatim>\<open>Account\<close> is declared in \<^verbatim>\<open>account.py\<close>, a module not modelled here; the
  manager reads two attributes of it, \<^verbatim>\<open>.address\<close> and \<^verbatim>\<open>.signer\<close>.
\<close>

datatype 'x account = Account (address: string) (account_signer: "'x transaction_signer")

text \<open>
  \<^verbatim>\<open>[sk, addr] = generate_account()\<close>; \<^verbatim>\<open>signer = AccountTransactionSigner(sk)\<close>;
  \<^verbatim>\<open>self.set_signer(addr, signer)\<close>; \<^verbatim>\<open>return AddrAndSigner(addr=addr, signer=signer)\<close>.
  The argument \<open>generated\<close> is the pair algosdk's \<^verbatim>\<open>generate_account()\<close> returned.
\<close>

definition random ::
  "string \<times> string \<Rightarrow> 'x account_manager \<Rightarrow> 'x addr_and_signer \<times> 'x account_manager" where
  "random generated am =
     (case generated of (sk, a) \<Rightarrow>
        (\<lparr>addr = a, signer = AccountTransactionSigner sk\<rparr>,
         set_signer a (AccountTransactionSigner sk) am))"

text \<open>
  \<^verbatim>\<open>acct = get_dispenser_account(self._client_manager.algod)\<close>, then the registration
  and the returned pair. \<open>got\<close> is the outcome of the imported lookup, which may raise
  (no mnemonic in the environment, algod unreachable); the exception propagates before
  anything is registered.
\<close>

definition dispenser ::
  "error + 'x account \<Rightarrow> 'x account_manager \<Rightarrow> (error + 'x addr_and_signer) \<times> 'x account_manager" where
  "dispenser got am =
     (case got of
        Inl e \<Rightarrow> (Inl e, am)
      | Inr acct \<Rightarrow>
          (Inr \<lparr>addr = address acct, signer = account_signer acct\<rparr>,
           set_signer (address acct) (account_signer acct) am))"

text \<open>The same with \<^verbatim>\<open>get_localnet_default_account\<close>, which raises off LocalNet.\<close>

definition localnet_dispenser ::
  "error + 'x account \<Rightarrow> 'x account_manager \<Rightarrow> (error + 'x addr_and_signer) \<times> 'x account_manager" where
  "localnet_dispenser got am =
     (case got of
        Inl e \<Rightarrow> (Inl e, am)
      | Inr acct \<Rightarrow>
          (Inr \<lparr>addr = address acct, signer = account_signer acct\<rparr>,
           set_signer (address acct) (account_signer acct) am))"

text \<open>
  \<^verbatim>\<open>account = get_kmd_wallet_account(name=name, predicate=predicate, client=..., kmd_client=...)\<close>;
  \<^verbatim>\<open>if not account: raise ValueError(f"Unable to find KMD account {name}{' with predicate' if predicate else ''}")\<close>;
  then the registration and the returned pair. \<open>lookup\<close> is the imported function with
  its two clients bound; it returns an account or \<^verbatim>\<open>None\<close>, or raises what the services
  raise. The parameter \<^verbatim>\<open>sender\<close> of the source is read nowhere in the method and has no
  counterpart here.
\<close>

definition from_kmd ::
  "(string \<Rightarrow> ('i \<Rightarrow> bool) option \<Rightarrow> error + 'x account option) \<Rightarrow> string \<Rightarrow> ('i \<Rightarrow> bool) option
     \<Rightarrow> 'x account_manager \<Rightarrow> (error + 'x addr_and_signer) \<times> 'x account_manager" where
  "from_kmd lookup name predicate am =
     (case lookup name predicate of
        Inl e \<Rightarrow> (Inl e, am)
      | Inr None \<Rightarrow>
          (Inl (ValueError (''Unable to find KMD account '' @ name @
                  (case predicate of Some pr \<Rightarrow> '' with predicate'' | None \<Rightarrow> []))), am)
      | Inr (Some acct) \<Rightarrow>
          (Inr \<lparr>addr = address acct, signer = account_signer acct\<rparr>,
           set_signer (address acct) (account_signer acct) am))"

text \<open>
  Modelled from the spec: \<^verbatim>\<open>get_kmd_wallet_account\<close> is imported from \<^verbatim>\<open>account.py\<close>,
  a module of the repository
  whose source is not available here. The specification (4.1, 7): it queries the named
  wallet through the key-management API for its account list, applies the predicate (a
  boolean function over an account's status and balance summary, which the ledger API's
  account query gives for an address) to select one candidate when a predicate is given,
  else picks arbitrarily from the wallet; there is no account when the wallet is missing,
  the wallet is empty, or the predicate rejects every candidate. Here \<open>wallets\<close> lists
  the key-management service's wallets by name with their accounts, \<open>account_info\<close> is the
  ledger's account query, and the arbitrary pick is the first account listed.
\<close>

definition wallet_accounts :: "(string \<times> 'x account list) list \<Rightarrow> string \<Rightarrow> 'x account list" where
  "wallet_accounts wallets name = (case map_of wallets name of None \<Rightarrow> [] | Some accts \<Rightarrow> accts)"

definition selects :: "('i \<Rightarrow> bool) option \<Rightarrow> (string \<Rightarrow> 'i) \<Rightarrow> 'x account \<Rightarrow> bool" where
  "selects predicate account_info acct =
     (case predicate of None \<Rightarrow> True | Some pr \<Rightarrow> pr (account_info (address acct)))"

definition get_kmd_wallet_account ::
  "(string \<Rightarrow> 'i) \<Rightarrow> (string \<times> 'x account list) list \<Rightarrow> string \<Rightarrow> ('i \<Rightarrow> bool) option
     \<Rightarrow> error + 'x account option" where
  "get_kmd_wallet_account account_info wallets name predicate =
     Inr (List.find (selects predicate account_info) (wallet_accounts wallets name))"

section \<open>algorand-client.py: the suggested-parameters cache\<close>

text \<open>
  The ledger client behind \<^verbatim>\<open>self._client_manager.algod\<close>, as far as the cache uses it:
  \<open>suggested_params_reply n\<close> is what the \<open>n\<close>-th call of \<^verbatim>\<open>suggested_params()\<close> answers
  (parameters, or an exception), and \<open>suggested_params_calls\<close> counts the calls made.
\<close>

record 'p algod_client =
  suggested_params_reply :: "nat \<Rightarrow> error + 'p"
  suggested_params_calls :: nat

definition suggested_params :: "'p algod_client \<Rightarrow> (error + 'p) \<times> 'p algod_client" where
  "suggested_params a =
     (suggested_params_reply a (suggested_params_calls a),
      a\<lparr>suggested_params_calls := Suc (suggested_params_calls a)\<rparr>)"

text \<open>
  The fields of \<^verbatim>\<open>AlgorandClient\<close> (without the leading underscore). The expiry is
  an optional \<^verbatim>\<open>float\<close> timestamp, idealised as a real number; the timeout is an
  \<^verbatim>\<open>int\<close>.
\<close>

record ('x, 'p) algorand_client =
  algod :: "'p algod_client"
  account_manager :: "'x account_manager"
  cached_suggested_params :: "'p option"
  cached_suggested_params_expiry :: "real option"
  cached_suggested_params_timeout :: int
  default_validity_window :: int

text \<open>
  \<^verbatim>\<open>__init__\<close>: an empty cache, \<^verbatim>\<open>_cached_suggested_params_timeout = 3_000\<close>, window 10.
  The configuration argument (annotated with \<^verbatim>\<open>AlgoConfig\<close>, a type the module does not
  import) is represented by the ledger client that \<^verbatim>\<open>ClientManager(config)\<close> yields.
\<close>

definition new_algorand_client :: "'p algod_client \<Rightarrow> ('x, 'p) algorand_client" where
  "new_algorand_client a =
     \<lparr>algod = a, account_manager = new_account_manager,
      cached_suggested_params = None, cached_suggested_params_expiry = None,
      cached_suggested_params_timeout = 3000, default_validity_window = 10\<rparr>"

text \<open>
  The module's imports are \<^verbatim>\<open>dataclasses\<close>, \<^verbatim>\<open>typing\<close>, \<^verbatim>\<open>algosdk\<close> and the
  package's own modules: the name \<^verbatim>\<open>time\<close> is bound nowhere, so each evaluation of
  \<^verbatim>\<open>time.time()\<close> (lines 106, 122 and 127) raises NameError for that name and never
  gives a reading.
\<close>

definition time_time :: "error + real" where
  "time_time = Inl (NameError ''time'')"

text \<open>\<^verbatim>\<open>time.time() + self._cached_suggested_params_timeout\<close> (lines 106 and 127).\<close>

definition time_plus_timeout :: "('x, 'p) algorand_client \<Rightarrow> error + real" where
  "time_plus_timeout c =
     (case time_time of
        Inl e \<Rightarrow> Inl e
      | Inr now \<Rightarrow> Inr (now + real_of_int (cached_suggested_params_timeout c)))"

text \<open>
  \<^verbatim>\<open>self._cached_suggested_params = suggested_params\<close>;
  \<^verbatim>\<open>self._cached_suggested_params_expiry = until or time.time() + self._cached_suggested_params_timeout\<close>.
  \<^verbatim>\<open>or\<close> binds weaker than \<^verbatim>\<open>+\<close>, and a number is falsy exactly when it is zero: the
  right operand is evaluated when \<^verbatim>\<open>until\<close> is \<^verbatim>\<open>None\<close> or 0, and its exception
  leaves the expiry unassigned, after the parameters have been stored. The first
  component of the result is the exception raised, if any.
\<close>

definition set_suggested_params ::
  "'p \<Rightarrow> real option \<Rightarrow> ('x, 'p) algorand_client \<Rightarrow> error option \<times> ('x, 'p) algorand_client" where
  "set_suggested_params params until c =
     (let c1 = c\<lparr>cached_suggested_params := Some params\<rparr> in
      case (case until of
              Some u \<Rightarrow> if u \<noteq> 0 then Inr u else time_plus_timeout c1
            | None \<Rightarrow> time_plus_timeout c1) of
        Inl e \<Rightarrow> (Some e, c1)
      | Inr expiry \<Rightarrow> (None, c1\<lparr>cached_suggested_params_expiry := Some expiry\<rparr>))"

definition set_suggested_params_timeout ::
  "int \<Rightarrow> ('x, 'p) algorand_client \<Rightarrow> ('x, 'p) algorand_client" where
  "set_suggested_params_timeout timeout c = c\<lparr>cached_suggested_params_timeout := timeout\<rparr>"

text \<open>\<^verbatim>\<open>.copy()\<close> of a parameters object: an equal value.\<close>

definition copy :: "'p \<Rightarrow> 'p" where
  "copy params = params"

text \<open>
  The condition of \<^verbatim>\<open>get_suggested_params\<close> (lines 121 to 123),
  \<^verbatim>\<open>self._cached_suggested_params and (expiry is None or expiry > time.time())\<close>:
  the cached object when the condition holds, \<open>None\<close> when it does not, and the
  exception when its evaluation raises. A parameters object is always truthy;
  \<^verbatim>\<open>time.time()\<close> is evaluated only when an object is cached with an expiry.
\<close>

definition cache_hit :: "('x, 'p) algorand_client \<Rightarrow> error + 'p option" where
  "cache_hit c =
     (case cached_suggested_params c of
        None \<Rightarrow> Inr None
      | Some params \<Rightarrow>
          (case cached_suggested_params_expiry c of
             None \<Rightarrow> Inr (Some params)
           | Some e \<Rightarrow>
               (case time_time of
                  Inl err \<Rightarrow> Inl err
                | Inr now \<Rightarrow> Inr (if e > now then Some params else None))))"

text \<open>
  When the condition holds, \<^verbatim>\<open>return self._cached_suggested_params.copy()\<close>. Otherwise
  line 126 assigns the ledger's answer to the cache (an exception of
  \<^verbatim>\<open>suggested_params()\<close> propagates before the assignment), line 127 assigns
  \<^verbatim>\<open>time.time() + self._cached_suggested_params_timeout\<close> to the expiry (its exception
  propagates after line 126 has taken effect), and line 129 returns the copy.
\<close>

definition get_suggested_params ::
  "('x, 'p) algorand_client \<Rightarrow> (error + 'p) \<times> ('x, 'p) algorand_client" where
  "get_suggested_params c =
     (case cache_hit c of
        Inl err \<Rightarrow> (Inl err, c)
      | Inr (Some params) \<Rightarrow> (Inr (copy params), c)
      | Inr None \<Rightarrow>
          (case suggested_params (algod c) of
             (Inl e, a) \<Rightarrow> (Inl e, c\<lparr>algod := a\<rparr>)
           | (Inr params, a) \<Rightarrow>
               (let c1 = c\<lparr>algod := a, cached_suggested_params := Some params\<rparr> in
                case time_plus_timeout c1 of
                  Inl err \<Rightarrow> (Inl err, c1)
                | Inr expiry \<Rightarrow>
                    (Inr (copy params), c1\<lparr>cached_suggested_params_expiry := Some expiry\<rparr>))))"

section \<open>algorand-client.py: the dispatch facade\<close>

text \<open>
  The ten operations of \<^verbatim>\<open>AlgorandClientSendMethods\<close> and
  \<^verbatim>\<open>AlgorandClientTransactionMethods\<close>, in the order of their fields.
\<close>

datatype op_kind =
    Payment | AssetCreate | AssetConfig | AssetFreeze | AssetDestroy
  | AssetTransfer | AppCall | OnlineKeyReg | MethodCall | AssetOptIn

text \<open>
  algosdk's \<^verbatim>\<open>TransactionWithSigner\<close> (the facade reads \<^verbatim>\<open>.txn\<close>) and
  \<^verbatim>\<open>AtomicTransactionResponse\<close> (the facade reads \<^verbatim>\<open>.tx_ids\<close>, the ids of the
  group's transactions in group order).
\<close>

datatype ('t, 'x) transaction_with_signer =
  TransactionWithSigner (txn: 't) (txn_signer: "'x transaction_signer")

record atomic_transaction_response =
  tx_ids :: "string list"

text \<open>
  What the facade acts on: the client, and the ledger as far as a caller can tell build
  from send, namely the groups its submission endpoint has received, in order. The
  ledger's state changes through that endpoint alone.
\<close>

record ('x, 'p, 't) world =
  client :: "('x, 'p) algorand_client"
  submissions :: "'t list list"

text \<open>
  What the module imports and does not define: the class \<^verbatim>\<open>AlgokitComposer\<close>
  (\<^verbatim>\<open>.composer\<close>) with its constructor, its ten \<^verbatim>\<open>add_...\<close> methods (\<open>add\<close>, by
  operation), \<^verbatim>\<open>execute()\<close> and \<^verbatim>\<open>build_group()\<close>, and algosdk's
  \<^verbatim>\<open>wait_for_confirmation\<close>. The constructor's arguments \<^verbatim>\<open>algod\<close>, \<^verbatim>\<open>get_signer\<close> and
  \<^verbatim>\<open>get_suggested_params\<close> are references to the client: the methods that use them
  receive the world and return it.
\<close>

record ('x, 'p, 't, 'prm, 'g, 'cf) collaborators =
  compose :: "int \<Rightarrow> 'g"
  add :: "op_kind \<Rightarrow> 'prm \<Rightarrow> 'g \<Rightarrow> 'g"
  execute :: "'g \<Rightarrow> ('x, 'p, 't) world \<Rightarrow> (error + atomic_transaction_response) \<times> ('x, 'p, 't) world"
  build_group ::
    "'g \<Rightarrow> ('x, 'p, 't) world \<Rightarrow> (error + ('t, 'x) transaction_with_signer list) \<times> ('x, 'p, 't) world"
  wait_for_confirmation :: "string \<Rightarrow> error + 'cf"

text \<open>\<^verbatim>\<open>new_group\<close>: a composer with \<^verbatim>\<open>default_validity_window=self._default_validity_window\<close>.\<close>

definition new_group :: "('x, 'p, 't, 'prm, 'g, 'cf) collaborators \<Rightarrow> ('x, 'p) algorand_client \<Rightarrow> 'g" where
  "new_group api c = compose api (default_validity_window c)"

text \<open>
  The dict \<^verbatim>\<open>{"confirmation": wait_for_confirmation(algod, results.tx_ids[0]), "tx_id": results.tx_ids[0]}\<close>.
  \<^verbatim>\<open>tx_ids[0]\<close> raises IndexError on an empty list, before anything is awaited.
\<close>

record 'cf send_result =
  confirmation :: 'cf
  tx_id :: string

definition unwrap_single_send_result ::
  "('x, 'p, 't, 'prm, 'g, 'cf) collaborators \<Rightarrow> atomic_transaction_response \<Rightarrow> error + 'cf send_result" where
  "unwrap_single_send_result api results =
     (case tx_ids results of
        [] \<Rightarrow> Inl IndexError
      | first_id # rest \<Rightarrow>
          (case wait_for_confirmation api first_id of
             Inl e \<Rightarrow> Inl e
           | Inr conf \<Rightarrow> Inr \<lparr>confirmation = conf, tx_id = first_id\<rparr>))"

text \<open>
  \<^verbatim>\<open>send\<close>: each of the ten fields is
  \<^verbatim>\<open>lambda params: self._unwrap_single_send_result(self.new_group().add_<op>(params).execute())\<close>;
  the operation is the argument \<open>kind\<close>.
\<close>

definition send ::
  "('x, 'p, 't, 'prm, 'g, 'cf) collaborators \<Rightarrow> op_kind \<Rightarrow> 'prm \<Rightarrow> ('x, 'p, 't) world
     \<Rightarrow> (error + 'cf send_result) \<times> ('x, 'p, 't) world" where
  "send api kind params w =
     (case execute api (add api kind params (new_group api (client w))) w of
        (Inl e, w') \<Rightarrow> (Inl e, w')
      | (Inr results, w') \<Rightarrow> (unwrap_single_send_result api results, w'))"

text \<open>
  \<^verbatim>\<open>transactions\<close>: nine fields are
  \<^verbatim>\<open>lambda params: self.new_group().add_<op>(params).build_group()[0].txn\<close>, and
  \<^verbatim>\<open>method_call\<close> is
  \<^verbatim>\<open>lambda params: [txn.txn for txn in self.new_group().add_method_call(params).build_group()]\<close>.
  The result is one transaction or a list of them.
\<close>

datatype 't built = Transaction 't | Transactions "'t list"

definition transactions ::
  "('x, 'p, 't, 'prm, 'g, 'cf) collaborators \<Rightarrow> op_kind \<Rightarrow> 'prm \<Rightarrow> ('x, 'p, 't) world
     \<Rightarrow> (error + 't built) \<times> ('x, 'p, 't) world" where
  "transactions api kind params w =
     (case build_group api (add api kind params (new_group api (client w))) w of
        (Inl e, w') \<Rightarrow> (Inl e, w')
      | (Inr grp, w') \<Rightarrow>
          (case kind of
             MethodCall \<Rightarrow> (Inr (Transactions (map txn grp)), w')
           | _ \<Rightarrow>
               (case grp of
                  [] \<Rightarrow> (Inl IndexError, w')
                | first_txn # rest \<Rightarrow> (Inr (Transaction (txn first_txn)), w'))))"

subsection \<open>The composer\<close>

text \<open>
  Modelled from the spec: \<^verbatim>\<open>AlgokitComposer\<close> is imported from \<^verbatim>\<open>composer.py\<close>, a module
  of the repository whose source is not available here. The specification (1, 4.3, 6, glossary): the composer
  accumulates typed parameter records into an ordered transaction group
  (\<^verbatim>\<open>add<Operation>(params) -> self\<close>); \<^verbatim>\<open>buildGroup()\<close> gives the ordered sequence of
  \<^verbatim>\<open>{transaction, signer}\<close>, built without submitting, a purely local construction that
  changes no ledger state; \<^verbatim>\<open>execute()\<close> signs using the resolver, submits through the
  ledger API and gives the transaction ids. The encoding of the records into
  transactions is not specified: it is the argument \<open>assemble\<close>, which may use the
  client (the signer resolver and the parameter provider are the client's) and cannot
  reach the ledger's submission endpoint. \<open>accept\<close> is the endpoint's answer to a group
  (an exception, or none), and \<open>txid\<close> a transaction's id.
\<close>

record 'prm composer =
  txns :: "(op_kind \<times> 'prm) list"
  validity_window :: int

record ('x, 'p, 't, 'prm, 'cf) ledger_services =
  assemble ::
    "'prm composer \<Rightarrow> ('x, 'p) algorand_client
       \<Rightarrow> (error + ('t, 'x) transaction_with_signer list) \<times> ('x, 'p) algorand_client"
  accept :: "'t list \<Rightarrow> error option"
  txid :: "'t \<Rightarrow> string"
  confirm :: "string \<Rightarrow> error + 'cf"

definition composer_add :: "op_kind \<Rightarrow> 'prm \<Rightarrow> 'prm composer \<Rightarrow> 'prm composer" where
  "composer_add kind params g = g\<lparr>txns := txns g @ [(kind, params)]\<rparr>"

definition composer_build_group ::
  "('x, 'p, 't, 'prm, 'cf) ledger_services \<Rightarrow> 'prm composer \<Rightarrow> ('x, 'p, 't) world
     \<Rightarrow> (error + ('t, 'x) transaction_with_signer list) \<times> ('x, 'p, 't) world" where
  "composer_build_group svc g w =
     (case assemble svc g (client w) of (outcome, c) \<Rightarrow> (outcome, w\<lparr>client := c\<rparr>))"

definition composer_execute ::
  "('x, 'p, 't, 'prm, 'cf) ledger_services \<Rightarrow> 'prm composer \<Rightarrow> ('x, 'p, 't) world
     \<Rightarrow> (error + atomic_transaction_response) \<times> ('x, 'p, 't) world" where
  "composer_execute svc g w =
     (case composer_build_group svc g w of
        (Inl e, w') \<Rightarrow> (Inl e, w')
      | (Inr grp, w') \<Rightarrow>
          (case accept svc (map txn grp) of
             Some e \<Rightarrow> (Inl e, w'\<lparr>submissions := submissions w' @ [map txn grp]\<rparr>)
           | None \<Rightarrow>
               (Inr \<lparr>tx_ids = map (txid svc) (map txn grp)\<rparr>,
                w'\<lparr>submissions := submissions w' @ [map txn grp]\<rparr>)))"

definition algokit_composer ::
  "('x, 'p, 't, 'prm, 'cf) ledger_services \<Rightarrow> ('x, 'p, 't, 'prm, 'prm composer, 'cf) collaborators" where
  "algokit_composer svc =
     \<lparr>compose = (\<lambda>window. \<lparr>txns = [], validity_window = window\<rparr>),
      add = composer_add,
      execute = composer_execute svc,
      build_group = composer_build_group svc,
      wait_for_confirmation = confirm svc\<rparr>"

subsection \<open>A mock ledger\<close>

text \<open>
  Collaborators for concrete runs, in the manner of a mock ledger client: parameters and
  transactions are strings, a method call assembles into two transactions and every other
  operation into one, the ledger accepts every group, the id of a transaction \<open>t\<close> is
  \<open>id-t\<close>, the confirmation of an id is its length, and the \<open>n\<close>-th call of
  \<^verbatim>\<open>suggested_params()\<close> answers \<open>n + 40\<close>. The client is a new one.
\<close>

definition mock_assemble ::
  "string composer \<Rightarrow> (unit, nat) algorand_client
     \<Rightarrow> (error + (string, unit) transaction_with_signer list) \<times> (unit, nat) algorand_client" where
  "mock_assemble g c =
     (Inr (concat (map (\<lambda>(kind, params).
              if kind = MethodCall
              then [TransactionWithSigner params (ExternalSigner ()),
                    TransactionWithSigner (params @ ''+'') (ExternalSigner ())]
              else [TransactionWithSigner params (ExternalSigner ())]) (txns g))), c)"

definition mock_services :: "(unit, nat, string, string, nat) ledger_services" where
  "mock_services =
     \<lparr>assemble = mock_assemble, accept = (\<lambda>g. None), txid = (\<lambda>t. ''id-'' @ t),
      confirm = (\<lambda>i. Inr (length i))\<rparr>"

definition mock_algod :: "nat algod_client" where
  "mock_algod = \<lparr>suggested_params_reply = (\<lambda>n. Inr (n + 40)), suggested_params_calls = 0\<rparr>"

definition mock_client :: "(unit, nat) algorand_client" where
  "mock_client = new_algorand_client mock_algod"

definition mock_world :: "(unit, nat, string) world" where
  "mock_world = \<lparr>client = mock_client, submissions = []\<rparr>"

section \<open>Properties of the signer registry\<close>

lemma get_signer_state: "snd (get_signer sender am) = am"
  by (simp add: get_signer_def split: option.split)

lemma get_signer_registered:
  "accounts am a = Some sg \<Longrightarrow> fst (get_signer a am) = Inr sg"
  by (simp add: get_signer_def py_or_def)

lemma apply_registry_op_keeps:
  "\<not> registers a op \<Longrightarrow> accounts (apply_registry_op op am) a = accounts am a"
  by (cases op) (simp_all add: set_default_signer_def set_signer_def get_signer_state)

lemma run_registry_ops_keeps:
  "list_all (\<lambda>op. \<not> registers a op) ops \<Longrightarrow> accounts (run_registry_ops ops am) a = accounts am a"
proof (induction ops arbitrary: am)
  case Nil
  show ?case by simp
next
  case (Cons op ops)
  from Cons.prems have here: "\<not> registers a op"
    and rest: "list_all (\<lambda>op. \<not> registers a op) ops" by simp_all
  have "accounts (run_registry_ops (op # ops) am) a = accounts (apply_registry_op op am) a"
    using Cons.IH [OF rest] by simp
  also have "\<dots> = accounts am a"
    using here by (rule apply_registry_op_keeps)
  finally show ?case .
qed

text \<open>
  Claim C1. For every address, \<open>get_signer\<close> raises (the source's
  \<^verbatim>\<open>ValueError("No signer found for address ...")\<close>, which the specification calls
  SignerNotFoundError) if and only if the address has no registered signer and no default
  signer has been set; the error is that one, and the call leaves the registry as it was,
  in the failing case as in every other.
\<close>

theorem get_signer_raises_iff:
  "(isl (fst (get_signer a am)) \<longleftrightarrow> accounts am a = None \<and> default_signer am = None)
   \<and> (fst (get_signer a am) = Inl (ValueError (''No signer found for address '' @ a))
        \<longleftrightarrow> accounts am a = None \<and> default_signer am = None)
   \<and> snd (get_signer a am) = am"
  by (simp add: get_signer_def py_or_def split: option.split)

theorem get_signer_raises_iff_witness:
  "fst (get_signer ''ADDR'' (new_account_manager :: unit account_manager))
       = Inl (ValueError ''No signer found for address ADDR'')
   \<and> snd (get_signer ''ADDR'' (new_account_manager :: unit account_manager)) = new_account_manager
   \<and> \<not> isl (fst (get_signer ''ADDR''
         (set_signer ''ADDR'' (AccountTransactionSigner ''sk'') (new_account_manager :: unit account_manager))))
   \<and> \<not> isl (fst (get_signer ''ADDR''
         (set_default_signer (ExternalSigner ()) (new_account_manager :: unit account_manager))))"
proof -
  let ?am = "new_account_manager :: unit account_manager"
  have none: "accounts ?am ''ADDR'' = None \<and> default_signer ?am = None"
    by (simp add: new_account_manager_def)
  have reg: "accounts (set_signer ''ADDR'' (AccountTransactionSigner ''sk'') ?am) ''ADDR'' \<noteq> None"
    by (simp add: set_signer_def)
  have dflt: "default_signer (set_default_signer (ExternalSigner ()) ?am) \<noteq> None"
    by (simp add: set_default_signer_def)
  show ?thesis
    using none reg dflt
      get_signer_raises_iff [of "''ADDR''" ?am]
      get_signer_raises_iff [of "''ADDR''" "set_signer ''ADDR'' (AccountTransactionSigner ''sk'') ?am"]
      get_signer_raises_iff [of "''ADDR''" "set_default_signer (ExternalSigner ()) ?am"]
    by simp
qed

text \<open>
  Claim C3. After \<open>set_signer a sg\<close>, every later \<open>get_signer a\<close> returns \<open>sg\<close>, whatever
  the default signer is before the registration and however it is set or replaced
  afterwards: the lookups may follow any sequence of registry calls that does not register
  \<open>a\<close> again. And for an address with no entry, once a default signer \<open>d\<close> is set,
  \<open>get_signer\<close> returns \<open>d\<close>.
\<close>

theorem set_signer_then_get_signer:
  "(list_all (\<lambda>op. \<not> registers a op) ops \<longrightarrow>
      fst (get_signer a (run_registry_ops ops (set_signer a sg am))) = Inr sg)
   \<and> (accounts am a = None \<longrightarrow> fst (get_signer a (set_default_signer d am)) = Inr d)"
proof (intro conjI impI)
  assume ops: "list_all (\<lambda>op. \<not> registers a op) ops"
  have "accounts (run_registry_ops ops (set_signer a sg am)) a = accounts (set_signer a sg am) a"
    using ops by (rule run_registry_ops_keeps)
  then have "accounts (run_registry_ops ops (set_signer a sg am)) a = Some sg"
    by (simp add: set_signer_def)
  then show "fst (get_signer a (run_registry_ops ops (set_signer a sg am))) = Inr sg"
    by (rule get_signer_registered)
next
  assume "accounts am a = None"
  then show "fst (get_signer a (set_default_signer d am)) = Inr d"
    by (simp add: get_signer_def py_or_def set_default_signer_def)
qed

theorem set_signer_then_get_signer_witness:
  "list_all (\<lambda>op. \<not> registers ''A'' op)
     [SetDefaultSigner (ExternalSigner (1::nat)), GetSigner ''A'',
      SetSigner ''B'' (ExternalSigner 2), SetDefaultSigner (ExternalSigner 3)]
   \<and> fst (get_signer ''A''
       (run_registry_ops
          [SetDefaultSigner (ExternalSigner (1::nat)), GetSigner ''A'',
           SetSigner ''B'' (ExternalSigner 2), SetDefaultSigner (ExternalSigner 3)]
          (set_signer ''A'' (AccountTransactionSigner ''sk'') new_account_manager)))
       = Inr (AccountTransactionSigner ''sk'')
   \<and> accounts (new_account_manager :: nat account_manager) ''A'' = None
   \<and> fst (get_signer ''A'' (set_default_signer (ExternalSigner (7::nat)) new_account_manager))
       = Inr (ExternalSigner 7)"
  using set_signer_then_get_signer [of "''A''"
      "[SetDefaultSigner (ExternalSigner (1::nat)), GetSigner ''A'',
        SetSigner ''B'' (ExternalSigner 2), SetDefaultSigner (ExternalSigner 3)]"
      "AccountTransactionSigner ''sk''" new_account_manager "ExternalSigner 7"]
  by (simp add: new_account_manager_def)

lemma get_signer_after_set_signer:
  "get_signer a (set_signer a sg am) = (Inr sg, set_signer a sg am)"
  by (simp add: get_signer_def py_or_def set_signer_def)

text \<open>
  Claim C8. Each provisioning method (\<open>random\<close>, \<open>dispenser\<close>, \<open>localnet_dispenser\<close>,
  \<open>from_kmd\<close>) that returns a pair has registered it: the value returned is exactly the
  address and signer it acquired, and in the registry it leaves behind \<open>get_signer\<close> of
  the returned address gives the returned signer.
\<close>

theorem provisioning_registers_returned_pair:
  "(random generated am = (r, am') \<longrightarrow>
      r = \<lparr>addr = snd generated, signer = AccountTransactionSigner (fst generated)\<rparr>
      \<and> get_signer (addr r) am' = (Inr (signer r), am'))
   \<and> (dispenser got am = (Inr r, am') \<longrightarrow>
      (\<exists>acct. got = Inr acct \<and> r = \<lparr>addr = address acct, signer = account_signer acct\<rparr>)
      \<and> get_signer (addr r) am' = (Inr (signer r), am'))
   \<and> (localnet_dispenser got am = (Inr r, am') \<longrightarrow>
      (\<exists>acct. got = Inr acct \<and> r = \<lparr>addr = address acct, signer = account_signer acct\<rparr>)
      \<and> get_signer (addr r) am' = (Inr (signer r), am'))
   \<and> (from_kmd lookup name predicate am = (Inr r, am') \<longrightarrow>
      (\<exists>acct. lookup name predicate = Inr (Some acct)
          \<and> r = \<lparr>addr = address acct, signer = account_signer acct\<rparr>)
      \<and> get_signer (addr r) am' = (Inr (signer r), am'))"
proof (intro conjI impI)
  assume "random generated am = (r, am')"
  then have r: "r = \<lparr>addr = snd generated, signer = AccountTransactionSigner (fst generated)\<rparr>"
    and am': "am' = set_signer (snd generated) (AccountTransactionSigner (fst generated)) am"
    by (auto simp: random_def split: prod.splits)
  show "r = \<lparr>addr = snd generated, signer = AccountTransactionSigner (fst generated)\<rparr>"
    by (fact r)
  show "get_signer (addr r) am' = (Inr (signer r), am')"
    by (simp add: r am' get_signer_after_set_signer)
next
  assume run: "dispenser got am = (Inr r, am')"
  then obtain acct where got: "got = Inr acct"
    by (cases got) (simp_all add: dispenser_def)
  from run have r: "r = \<lparr>addr = address acct, signer = account_signer acct\<rparr>"
    and am': "am' = set_signer (address acct) (account_signer acct) am"
    by (auto simp: dispenser_def got)
  show "\<exists>acct. got = Inr acct \<and> r = \<lparr>addr = address acct, signer = account_signer acct\<rparr>"
    using got r by blast
  show "get_signer (addr r) am' = (Inr (signer r), am')"
    by (simp add: r am' get_signer_after_set_signer)
next
  assume run: "localnet_dispenser got am = (Inr r, am')"
  then obtain acct where got: "got = Inr acct"
    by (cases got) (simp_all add: localnet_dispenser_def)
  from run have r: "r = \<lparr>addr = address acct, signer = account_signer acct\<rparr>"
    and am': "am' = set_signer (address acct) (account_signer acct) am"
    by (auto simp: localnet_dispenser_def got)
  show "\<exists>acct. got = Inr acct \<and> r = \<lparr>addr = address acct, signer = account_signer acct\<rparr>"
    using got r by blast
  show "get_signer (addr r) am' = (Inr (signer r), am')"
    by (simp add: r am' get_signer_after_set_signer)
next
  assume run: "from_kmd lookup name predicate am = (Inr r, am')"
  then obtain acct where got: "lookup name predicate = Inr (Some acct)"
    by (auto simp: from_kmd_def split: sum.splits option.splits)
  from run have r: "r = \<lparr>addr = address acct, signer = account_signer acct\<rparr>"
    and am': "am' = set_signer (address acct) (account_signer acct) am"
    by (auto simp: from_kmd_def got)
  show "\<exists>acct. lookup name predicate = Inr (Some acct)
          \<and> r = \<lparr>addr = address acct, signer = account_signer acct\<rparr>"
    using got r by blast
  show "get_signer (addr r) am' = (Inr (signer r), am')"
    by (simp add: r am' get_signer_after_set_signer)
qed

theorem provisioning_registers_returned_pair_witness:
  "random (''sk1'', ''A1'') (new_account_manager :: nat account_manager)
     = (\<lparr>addr = ''A1'', signer = AccountTransactionSigner ''sk1''\<rparr>,
        set_signer ''A1'' (AccountTransactionSigner ''sk1'') new_account_manager)
   \<and> get_signer ''A1'' (set_signer ''A1'' (AccountTransactionSigner ''sk1'') (new_account_manager :: nat account_manager))
     = (Inr (AccountTransactionSigner ''sk1''),
        set_signer ''A1'' (AccountTransactionSigner ''sk1'') new_account_manager)
   \<and> dispenser (Inr (Account ''D'' (ExternalSigner (4::nat)))) new_account_manager
     = (Inr \<lparr>addr = ''D'', signer = ExternalSigner 4\<rparr>, set_signer ''D'' (ExternalSigner 4) new_account_manager)
   \<and> get_signer ''D'' (set_signer ''D'' (ExternalSigner (4::nat)) new_account_manager)
     = (Inr (ExternalSigner 4), set_signer ''D'' (ExternalSigner 4) new_account_manager)
   \<and> localnet_dispenser (Inr (Account ''L'' (ExternalSigner (5::nat)))) new_account_manager
     = (Inr \<lparr>addr = ''L'', signer = ExternalSigner 5\<rparr>, set_signer ''L'' (ExternalSigner 5) new_account_manager)
   \<and> get_signer ''L'' (set_signer ''L'' (ExternalSigner (5::nat)) new_account_manager)
     = (Inr (ExternalSigner 5), set_signer ''L'' (ExternalSigner 5) new_account_manager)
   \<and> from_kmd (\<lambda>n p. Inr (Some (Account ''K'' (ExternalSigner (6::nat))))) ''W'' (None :: (int \<Rightarrow> bool) option)
        new_account_manager
     = (Inr \<lparr>addr = ''K'', signer = ExternalSigner 6\<rparr>, set_signer ''K'' (ExternalSigner 6) new_account_manager)
   \<and> get_signer ''K'' (set_signer ''K'' (ExternalSigner (6::nat)) new_account_manager)
     = (Inr (ExternalSigner 6), set_signer ''K'' (ExternalSigner 6) new_account_manager)"
proof -
  let ?am = "new_account_manager :: nat account_manager"
  have a: "random (''sk1'', ''A1'') ?am
     = (\<lparr>addr = ''A1'', signer = AccountTransactionSigner ''sk1''\<rparr>,
        set_signer ''A1'' (AccountTransactionSigner ''sk1'') ?am)"
    by (simp add: random_def)
  have b: "dispenser (Inr (Account ''D'' (ExternalSigner (4::nat)))) ?am
     = (Inr \<lparr>addr = ''D'', signer = ExternalSigner 4\<rparr>, set_signer ''D'' (ExternalSigner 4) ?am)"
    by (simp add: dispenser_def)
  have c: "localnet_dispenser (Inr (Account ''L'' (ExternalSigner (5::nat)))) ?am
     = (Inr \<lparr>addr = ''L'', signer = ExternalSigner 5\<rparr>, set_signer ''L'' (ExternalSigner 5) ?am)"
    by (simp add: localnet_dispenser_def)
  have d: "from_kmd (\<lambda>n p. Inr (Some (Account ''K'' (ExternalSigner (6::nat))))) ''W''
        (None :: (int \<Rightarrow> bool) option) ?am
     = (Inr \<lparr>addr = ''K'', signer = ExternalSigner 6\<rparr>, set_signer ''K'' (ExternalSigner 6) ?am)"
    by (simp add: from_kmd_def)
  note main = provisioning_registers_returned_pair
  have a': "get_signer ''A1'' (set_signer ''A1'' (AccountTransactionSigner ''sk1'') ?am)
     = (Inr (AccountTransactionSigner ''sk1''), set_signer ''A1'' (AccountTransactionSigner ''sk1'') ?am)"
    using main [THEN conjunct1, THEN mp, OF a, THEN conjunct2] by simp
  have b': "get_signer ''D'' (set_signer ''D'' (ExternalSigner (4::nat)) ?am)
     = (Inr (ExternalSigner 4), set_signer ''D'' (ExternalSigner 4) ?am)"
    using main [THEN conjunct2, THEN conjunct1, THEN mp, OF b, THEN conjunct2] by simp
  have c': "get_signer ''L'' (set_signer ''L'' (ExternalSigner (5::nat)) ?am)
     = (Inr (ExternalSigner 5), set_signer ''L'' (ExternalSigner 5) ?am)"
    using main [THEN conjunct2, THEN conjunct2, THEN conjunct1, THEN mp, OF c, THEN conjunct2] by simp
  have d': "get_signer ''K'' (set_signer ''K'' (ExternalSigner (6::nat)) ?am)
     = (Inr (ExternalSigner 6), set_signer ''K'' (ExternalSigner 6) ?am)"
    using main [THEN conjunct2, THEN conjunct2, THEN conjunct2, THEN mp, OF d, THEN conjunct2] by simp
  from a a' b b' c c' d d' show ?thesis by blast
qed

lemma get_kmd_wallet_account_none:
  "get_kmd_wallet_account account_info wallets name predicate = Inr None
     \<longleftrightarrow> \<not> (\<exists>acct. acct \<in> set (wallet_accounts wallets name) \<and> selects predicate account_info acct)"
  by (simp add: get_kmd_wallet_account_def find_None_iff)

lemma get_kmd_wallet_account_some:
  "get_kmd_wallet_account account_info wallets name predicate = Inr (Some acct)
     \<Longrightarrow> acct \<in> set (wallet_accounts wallets name) \<and> selects predicate account_info acct"
  by (auto simp: get_kmd_wallet_account_def find_Some_iff)

lemma get_kmd_wallet_account_total:
  "\<exists>found. get_kmd_wallet_account account_info wallets name predicate = Inr found"
  by (simp add: get_kmd_wallet_account_def)

text \<open>
  Claim C7. With the wallet lookup of the specification, \<open>from_kmd\<close> raises (the source's
  \<^verbatim>\<open>ValueError("Unable to find KMD account ...")\<close>, which the specification calls
  AccountNotFoundError) exactly when no account of the named wallet satisfies the
  selection, and then registers nothing; this covers the missing wallet, the empty wallet
  and the predicate that rejects every candidate. When a predicate is supplied, an
  account that is returned is one of the wallet's and satisfies the predicate.
\<close>

theorem from_kmd_raises_or_satisfies:
  "(fst (from_kmd (get_kmd_wallet_account account_info wallets) name predicate am)
       = Inl (ValueError (''Unable to find KMD account '' @ name @
                (case predicate of Some pr \<Rightarrow> '' with predicate'' | None \<Rightarrow> [])))
      \<and> snd (from_kmd (get_kmd_wallet_account account_info wallets) name predicate am) = am)
     = (\<not> (\<exists>acct. acct \<in> set (wallet_accounts wallets name) \<and> selects predicate account_info acct))
   \<and> (map_of wallets name = None \<longrightarrow>
        isl (fst (from_kmd (get_kmd_wallet_account account_info wallets) name predicate am)))
   \<and> (map_of wallets name = Some [] \<longrightarrow>
        isl (fst (from_kmd (get_kmd_wallet_account account_info wallets) name predicate am)))
   \<and> (list_all (\<lambda>acct. \<not> pr (account_info (address acct))) (wallet_accounts wallets name) \<longrightarrow>
        isl (fst (from_kmd (get_kmd_wallet_account account_info wallets) name (Some pr) am)))
   \<and> (from_kmd (get_kmd_wallet_account account_info wallets) name (Some pr) am = (Inr r, am') \<longrightarrow>
        pr (account_info (addr r))
        \<and> (\<exists>acct. acct \<in> set (wallet_accounts wallets name) \<and> addr r = address acct
              \<and> signer r = account_signer acct))"
proof (intro conjI impI)
  let ?L = "get_kmd_wallet_account account_info wallets"
  let ?none = "\<not> (\<exists>acct. acct \<in> set (wallet_accounts wallets name) \<and> selects predicate account_info acct)"
  have raise_iff: "\<And>p. isl (fst (from_kmd ?L name p am)) \<longleftrightarrow> ?L name p = Inr None"
    by (auto simp: from_kmd_def get_kmd_wallet_account_def split: option.splits)
  show "(fst (from_kmd ?L name predicate am)
       = Inl (ValueError (''Unable to find KMD account '' @ name @
                (case predicate of Some pr \<Rightarrow> '' with predicate'' | None \<Rightarrow> [])))
      \<and> snd (from_kmd ?L name predicate am) = am) = ?none"
  proof (cases "?L name predicate = Inr None")
    case True
    then show ?thesis
      using get_kmd_wallet_account_none [of account_info wallets name predicate]
      by (simp add: from_kmd_def)
  next
    case False
    then obtain acct where some: "?L name predicate = Inr (Some acct)"
      using get_kmd_wallet_account_total [of account_info wallets name predicate]
      by (cases "find (selects predicate account_info) (wallet_accounts wallets name)")
        (auto simp: get_kmd_wallet_account_def)
    then show ?thesis
      using False get_kmd_wallet_account_none [of account_info wallets name predicate]
      by (simp add: from_kmd_def)
  qed
  {
    assume "map_of wallets name = None"
    then have "wallet_accounts wallets name = []" by (simp add: wallet_accounts_def)
    then have "?L name predicate = Inr None" by (simp add: get_kmd_wallet_account_def)
    then show "isl (fst (from_kmd ?L name predicate am))" by (simp add: raise_iff)
  }
  {
    assume "map_of wallets name = Some []"
    then have "wallet_accounts wallets name = []" by (simp add: wallet_accounts_def)
    then have "?L name predicate = Inr None" by (simp add: get_kmd_wallet_account_def)
    then show "isl (fst (from_kmd ?L name predicate am))" by (simp add: raise_iff)
  }
  {
    assume "list_all (\<lambda>acct. \<not> pr (account_info (address acct))) (wallet_accounts wallets name)"
    then have "\<not> (\<exists>acct. acct \<in> set (wallet_accounts wallets name) \<and> selects (Some pr) account_info acct)"
      by (auto simp: list_all_iff selects_def)
    then have "?L name (Some pr) = Inr None" by (simp add: get_kmd_wallet_account_none)
    then show "isl (fst (from_kmd ?L name (Some pr) am))" by (simp add: raise_iff)
  }
  {
    assume run: "from_kmd ?L name (Some pr) am = (Inr r, am')"
    then obtain acct where some: "?L name (Some pr) = Inr (Some acct)"
      and r: "r = \<lparr>addr = address acct, signer = account_signer acct\<rparr>"
      by (auto simp: from_kmd_def split: sum.splits option.splits)
    from get_kmd_wallet_account_some [OF some]
    have mem: "acct \<in> set (wallet_accounts wallets name)" and ok: "pr (account_info (address acct))"
      by (simp_all add: selects_def)
    show "pr (account_info (addr r))" using ok by (simp add: r)
    show "\<exists>acct. acct \<in> set (wallet_accounts wallets name) \<and> addr r = address acct
              \<and> signer r = account_signer acct"
      using mem r by auto
  }
qed

theorem from_kmd_raises_or_satisfies_witness:
  "map_of [(''W'', [Account ''A'' (ExternalSigner (1::nat)), Account ''B'' (ExternalSigner 2)]), (''E'', [])] ''X'' = None
   \<and> isl (fst (from_kmd (get_kmd_wallet_account (\<lambda>a. if a = ''B'' then (2000::int) else 5)
        [(''W'', [Account ''A'' (ExternalSigner (1::nat)), Account ''B'' (ExternalSigner 2)]), (''E'', [])])
        ''X'' None new_account_manager))
   \<and> map_of [(''W'', [Account ''A'' (ExternalSigner (1::nat)), Account ''B'' (ExternalSigner 2)]), (''E'', [])] ''E'' = Some []
   \<and> isl (fst (from_kmd (get_kmd_wallet_account (\<lambda>a. if a = ''B'' then (2000::int) else 5)
        [(''W'', [Account ''A'' (ExternalSigner (1::nat)), Account ''B'' (ExternalSigner 2)]), (''E'', [])])
        ''E'' None new_account_manager))
   \<and> list_all (\<lambda>acct. \<not> (5000 < (if address acct = ''B'' then (2000::int) else 5)))
        (wallet_accounts
           [(''W'', [Account ''A'' (ExternalSigner (1::nat)), Account ''B'' (ExternalSigner 2)]), (''E'', [])] ''W'')
   \<and> isl (fst (from_kmd (get_kmd_wallet_account (\<lambda>a. if a = ''B'' then (2000::int) else 5)
        [(''W'', [Account ''A'' (ExternalSigner (1::nat)), Account ''B'' (ExternalSigner 2)]), (''E'', [])])
        ''W'' (Some (\<lambda>amount. 5000 < amount)) new_account_manager))
   \<and> from_kmd (get_kmd_wallet_account (\<lambda>a. if a = ''B'' then (2000::int) else 5)
        [(''W'', [Account ''A'' (ExternalSigner (1::nat)), Account ''B'' (ExternalSigner 2)]), (''E'', [])])
        ''W'' (Some (\<lambda>amount. 1000 < amount)) new_account_manager
      = (Inr \<lparr>addr = ''B'', signer = ExternalSigner 2\<rparr>,
         set_signer ''B'' (ExternalSigner 2) new_account_manager)
   \<and> 1000 < (if addr \<lparr>addr = ''B'', signer = ExternalSigner (2::nat)\<rparr> = ''B'' then (2000::int) else 5)"
proof -
  let ?info = "\<lambda>a. if a = ''B'' then (2000::int) else 5"
  let ?ws = "[(''W'', [Account ''A'' (ExternalSigner (1::nat)), Account ''B'' (ExternalSigner 2)]), (''E'', [])]"
  let ?am = "new_account_manager :: nat account_manager"
  note main = from_kmd_raises_or_satisfies [where account_info = ?info and wallets = ?ws and am = ?am]
  have missing: "map_of ?ws ''X'' = None" by simp
  have empty: "map_of ?ws ''E'' = Some []" by simp
  have rejected: "list_all (\<lambda>acct. \<not> (\<lambda>amount. 5000 < amount) (?info (address acct)))
      (wallet_accounts ?ws ''W'')"
    by (simp add: wallet_accounts_def)
  have found: "from_kmd (get_kmd_wallet_account ?info ?ws) ''W'' (Some (\<lambda>amount. 1000 < amount)) ?am
      = (Inr \<lparr>addr = ''B'', signer = ExternalSigner 2\<rparr>, set_signer ''B'' (ExternalSigner 2) ?am)"
    by (simp add: from_kmd_def get_kmd_wallet_account_def wallet_accounts_def selects_def)
  have 1: "isl (fst (from_kmd (get_kmd_wallet_account ?info ?ws) ''X'' None ?am))"
    using main [THEN conjunct2, THEN conjunct1, THEN mp, OF missing] .
  have 2: "isl (fst (from_kmd (get_kmd_wallet_account ?info ?ws) ''E'' None ?am))"
    using main [THEN conjunct2, THEN conjunct2, THEN conjunct1, THEN mp, OF empty] .
  have 3: "isl (fst (from_kmd (get_kmd_wallet_account ?info ?ws) ''W'' (Some (\<lambda>amount. 5000 < amount)) ?am))"
    using main [THEN conjunct2, THEN conjunct2, THEN conjunct2, THEN conjunct1, THEN mp, OF rejected] .
  have 4: "(\<lambda>amount. 1000 < amount) (?info (addr \<lparr>addr = ''B'', signer = ExternalSigner (2::nat)\<rparr>))"
    using main [THEN conjunct2, THEN conjunct2, THEN conjunct2, THEN conjunct2, THEN mp, OF found,
        THEN conjunct1] .
  from missing 1 empty 2 rejected 3 found 4 show ?thesis by simp
qed

section \<open>Properties of the suggested-parameters cache\<close>

lemma time_plus_timeout_raises: "time_plus_timeout c = Inl (NameError ''time'')"
  by (simp add: time_plus_timeout_def time_time_def)

lemma set_suggested_params_truthy:
  "u \<noteq> 0 \<Longrightarrow>
     set_suggested_params params (Some u) c
       = (None, c\<lparr>cached_suggested_params := Some params, cached_suggested_params_expiry := Some u\<rparr>)"
  by (simp add: set_suggested_params_def)

lemma set_suggested_params_falsy:
  "until = None \<or> until = Some 0 \<Longrightarrow>
     set_suggested_params params until c
       = (Some (NameError ''time''), c\<lparr>cached_suggested_params := Some params\<rparr>)"
  by (auto simp: set_suggested_params_def time_plus_timeout_raises)

lemma get_suggested_params_empty_cache:
  assumes "cached_suggested_params c = None"
    and "suggested_params_reply (algod c) (suggested_params_calls (algod c)) = Inr params"
  shows "get_suggested_params c =
     (Inl (NameError ''time''),
      c\<lparr>algod := (algod c)\<lparr>suggested_params_calls := Suc (suggested_params_calls (algod c))\<rparr>,
        cached_suggested_params := Some params\<rparr>)"
  using assms
  by (simp add: get_suggested_params_def cache_hit_def suggested_params_def time_plus_timeout_raises)

lemma get_suggested_params_with_expiry:
  "cached_suggested_params c = Some params \<Longrightarrow> cached_suggested_params_expiry c = Some e \<Longrightarrow>
     get_suggested_params c = (Inl (NameError ''time''), c)"
  by (simp add: get_suggested_params_def cache_hit_def time_time_def)

lemma get_suggested_params_without_expiry:
  "cached_suggested_params c = Some params \<Longrightarrow> cached_suggested_params_expiry c = None \<Longrightarrow>
     get_suggested_params c = (Inr params, c)"
  by (simp add: get_suggested_params_def cache_hit_def copy_def)

text \<open>No call of \<open>get_suggested_params\<close> assigns the expiry.\<close>

lemma get_suggested_params_keeps_expiry:
  "cached_suggested_params_expiry (snd (get_suggested_params c)) = cached_suggested_params_expiry c"
proof (cases "cached_suggested_params c")
  case None
  then show ?thesis
    by (simp add: get_suggested_params_def cache_hit_def suggested_params_def
        time_plus_timeout_raises split: sum.split)
next
  case (Some params)
  then show ?thesis
    by (cases "cached_suggested_params_expiry c")
      (simp_all add: get_suggested_params_without_expiry get_suggested_params_with_expiry)
qed

text \<open>
  Claim C2 on a new client whose ledger answers 40. The first \<open>get_suggested_params\<close>
  call fetches once, caches the answer and then raises NameError at line 127, so it
  returns no value and stores no expiry; the second call returns the cached 40 without a
  fetch. With an expiry stored by \<open>set_suggested_params\<close>, a call raises NameError at
  line 122 and returns nothing either.
\<close>

theorem get_suggested_params_first_call_raises:
  "get_suggested_params mock_client
     = (Inl (NameError ''time''),
        mock_client\<lparr>algod := mock_algod\<lparr>suggested_params_calls := 1\<rparr>,
                    cached_suggested_params := Some 40\<rparr>)
   \<and> cached_suggested_params_expiry (snd (get_suggested_params mock_client)) = None
   \<and> get_suggested_params (snd (get_suggested_params mock_client))
     = (Inr 40, snd (get_suggested_params mock_client))
   \<and> get_suggested_params (snd (set_suggested_params 7 (Some 5000) mock_client))
     = (Inl (NameError ''time''), snd (set_suggested_params 7 (Some 5000) mock_client))"
proof -
  have first: "get_suggested_params mock_client
     = (Inl (NameError ''time''),
        mock_client\<lparr>algod := mock_algod\<lparr>suggested_params_calls := 1\<rparr>,
                    cached_suggested_params := Some 40\<rparr>)"
    using get_suggested_params_empty_cache [of mock_client 40]
    by (simp add: mock_client_def mock_algod_def new_algorand_client_def)
  have second: "get_suggested_params (snd (get_suggested_params mock_client))
     = (Inr 40, snd (get_suggested_params mock_client))"
  proof (rule get_suggested_params_without_expiry)
    show "cached_suggested_params (snd (get_suggested_params mock_client)) = Some 40"
      by (simp add: first)
    have "cached_suggested_params_expiry mock_client = None"
      by (simp add: mock_client_def new_algorand_client_def)
    then show "cached_suggested_params_expiry (snd (get_suggested_params mock_client)) = None"
      by (simp add: first)
  qed
  have seeded: "get_suggested_params (snd (set_suggested_params 7 (Some 5000) mock_client))
     = (Inl (NameError ''time''), snd (set_suggested_params 7 (Some 5000) mock_client))"
    by (rule get_suggested_params_with_expiry [where params = 7 and e = 5000])
      (simp_all add: set_suggested_params_truthy)
  show ?thesis
    using first second seeded by (simp add: mock_client_def new_algorand_client_def)
qed

text \<open>
  Claim C4 on a new client. \<open>set_suggested_params\<close> with the timestamp 5000 stores the
  parameters and that expiry, and the next \<open>get_suggested_params\<close> call raises NameError
  at line 122 instead of returning them. With \<^verbatim>\<open>until\<close> omitted, or given as 0,
  \<open>set_suggested_params\<close> itself raises NameError at line 106.
\<close>

theorem set_suggested_params_until_then_get:
  "set_suggested_params 7 (Some 5000) mock_client
     = (None, mock_client\<lparr>cached_suggested_params := Some 7,
                          cached_suggested_params_expiry := Some 5000\<rparr>)
   \<and> fst (get_suggested_params (snd (set_suggested_params 7 (Some 5000) mock_client)))
     = Inl (NameError ''time'')
   \<and> suggested_params_calls (algod (snd (get_suggested_params
        (snd (set_suggested_params 7 (Some 5000) mock_client))))) = 0
   \<and> fst (set_suggested_params 7 None mock_client) = Some (NameError ''time'')
   \<and> fst (set_suggested_params 7 (Some 0) mock_client) = Some (NameError ''time'')"
proof -
  have stored: "set_suggested_params 7 (Some 5000) mock_client
     = (None, mock_client\<lparr>cached_suggested_params := Some 7,
                          cached_suggested_params_expiry := Some 5000\<rparr>)"
    by (simp add: set_suggested_params_truthy)
  have raised: "get_suggested_params (snd (set_suggested_params 7 (Some 5000) mock_client))
     = (Inl (NameError ''time''), snd (set_suggested_params 7 (Some 5000) mock_client))"
    by (rule get_suggested_params_with_expiry [where params = 7 and e = 5000])
      (simp_all add: stored)
  have calls: "suggested_params_calls (algod mock_client) = 0"
    by (simp add: mock_client_def mock_algod_def new_algorand_client_def)
  have no_fetch: "suggested_params_calls (algod (snd (get_suggested_params
        (snd (set_suggested_params 7 (Some 5000) mock_client))))) = 0"
    by (simp add: raised) (simp add: stored calls)
  have omitted: "fst (set_suggested_params 7 None mock_client) = Some (NameError ''time'')"
    and zero: "fst (set_suggested_params 7 (Some 0) mock_client) = Some (NameError ''time'')"
    by (simp_all add: set_suggested_params_falsy)
  have got: "fst (get_suggested_params (snd (set_suggested_params 7 (Some 5000) mock_client)))
     = Inl (NameError ''time'')"
    by (simp add: raised)
  from stored got no_fetch omitted zero show ?thesis by blast
qed

text \<open>
  Claim C9 on a new client. With \<^verbatim>\<open>until\<close> omitted or 0, \<open>set_suggested_params\<close>
  stores the parameters and raises NameError at line 106: the expiry is not assigned and
  stays \<open>None\<close>, it does not become the clock reading plus the timeout. A timestamp
  other than zero, here 250, is stored as the expiry.
\<close>

theorem set_suggested_params_falsy_until:
  "set_suggested_params 7 None mock_client
     = (Some (NameError ''time''), mock_client\<lparr>cached_suggested_params := Some 7\<rparr>)
   \<and> set_suggested_params 7 (Some 0) mock_client
     = (Some (NameError ''time''), mock_client\<lparr>cached_suggested_params := Some 7\<rparr>)
   \<and> cached_suggested_params_expiry (snd (set_suggested_params 7 None mock_client)) = None
   \<and> cached_suggested_params_expiry (snd (set_suggested_params 7 (Some 0) mock_client)) = None
   \<and> cached_suggested_params_expiry (snd (set_suggested_params 7 (Some 250) mock_client)) = Some 250"
  by (simp add: set_suggested_params_falsy set_suggested_params_truthy)
    (simp add: mock_client_def new_algorand_client_def)

text \<open>
  Claim C10 on a new client. The timeout is the integer 3000, and
  \<open>set_suggested_params_timeout\<close> stores the value given as it is. The refresh of
  \<open>get_suggested_params\<close> raises NameError at line 127 before anything is added to a
  clock reading, with the timeout 3000 as with the timeout 3: no expiry is stored, and
  the value cached by the failed refresh is returned by the next call, and by every call
  after it, since that call changes nothing.
\<close>

theorem timeout_never_added:
  "cached_suggested_params_timeout mock_client = 3000
   \<and> cached_suggested_params_timeout (set_suggested_params_timeout 3 mock_client) = 3
   \<and> fst (get_suggested_params mock_client) = Inl (NameError ''time'')
   \<and> cached_suggested_params_expiry (snd (get_suggested_params mock_client)) = None
   \<and> fst (get_suggested_params (set_suggested_params_timeout 3 mock_client)) = Inl (NameError ''time'')
   \<and> cached_suggested_params_expiry
        (snd (get_suggested_params (set_suggested_params_timeout 3 mock_client))) = None
   \<and> get_suggested_params (snd (get_suggested_params mock_client))
        = (Inr 40, snd (get_suggested_params mock_client))"
proof -
  have timeout: "cached_suggested_params_timeout mock_client = 3000"
    "cached_suggested_params_timeout (set_suggested_params_timeout 3 mock_client) = 3"
    by (simp_all add: mock_client_def new_algorand_client_def set_suggested_params_timeout_def)
  have first: "get_suggested_params mock_client
     = (Inl (NameError ''time''),
        mock_client\<lparr>algod := mock_algod\<lparr>suggested_params_calls := 1\<rparr>,
                    cached_suggested_params := Some 40\<rparr>)"
    using get_suggested_params_empty_cache [of mock_client 40]
    by (simp add: mock_client_def mock_algod_def new_algorand_client_def)
  have changed: "fst (get_suggested_params (set_suggested_params_timeout 3 mock_client))
      = Inl (NameError ''time'')"
    using get_suggested_params_empty_cache [of "set_suggested_params_timeout 3 mock_client" 40]
    by (simp add: set_suggested_params_timeout_def mock_client_def mock_algod_def
        new_algorand_client_def)
  have expiry: "cached_suggested_params_expiry mock_client = None"
    "cached_suggested_params_expiry (set_suggested_params_timeout 3 mock_client) = None"
    by (simp_all add: mock_client_def new_algorand_client_def set_suggested_params_timeout_def)
  have second: "get_suggested_params (snd (get_suggested_params mock_client))
     = (Inr 40, snd (get_suggested_params mock_client))"
  proof (rule get_suggested_params_without_expiry)
    show "cached_suggested_params (snd (get_suggested_params mock_client)) = Some 40"
      by (simp add: first)
    have "cached_suggested_params_expiry mock_client = None"
      by (simp add: mock_client_def new_algorand_client_def)
    then show "cached_suggested_params_expiry (snd (get_suggested_params mock_client)) = None"
      by (simp add: first)
  qed
  show ?thesis
    using timeout changed second
    by (simp add: get_suggested_params_keeps_expiry expiry) (simp add: first)
qed

section \<open>Properties of the dispatch facade\<close>

lemma unwrap_single_send_result_returned:
  assumes "unwrap_single_send_result api results = Inr r"
  shows "\<exists>rest. tx_ids results = tx_id r # rest
     \<and> wait_for_confirmation api (tx_id r) = Inr (confirmation r)"
proof (cases "tx_ids results")
  case Nil
  with assms show ?thesis by (simp add: unwrap_single_send_result_def)
next
  case (Cons first_id rest)
  with assms obtain conf where "wait_for_confirmation api first_id = Inr conf"
    and "r = \<lparr>confirmation = conf, tx_id = first_id\<rparr>"
    by (cases "wait_for_confirmation api first_id") (auto simp: unwrap_single_send_result_def)
  with Cons show ?thesis by simp
qed

text \<open>
  Claim C5. For every operation, \<open>send\<close> returns a record exactly when the executed
  group's response holds at least one id and the confirmation awaited for the first id
  arrives, and the record is then made of that first id (\<^verbatim>\<open>results.tx_ids[0]\<close>, the id
  of the group's first transaction) and of the confirmation of that same id, however
  many ids follow it in the response. The world after \<open>send\<close> is the one the execution
  left.
\<close>

theorem send_returns_first_transaction:
  "(send api kind params w = (Inr r, w') \<longleftrightarrow>
     (\<exists>results rest.
        execute api (add api kind params (new_group api (client w))) w = (Inr results, w')
        \<and> tx_ids results = tx_id r # rest
        \<and> wait_for_confirmation api (tx_id r) = Inr (confirmation r)))
   \<and> snd (send api kind params w)
       = snd (execute api (add api kind params (new_group api (client w))) w)"
proof (intro conjI iffI)
  assume run: "send api kind params w = (Inr r, w')"
  obtain outcome w1 where ex: "execute api (add api kind params (new_group api (client w))) w = (outcome, w1)"
    by (cases "execute api (add api kind params (new_group api (client w))) w")
  show "\<exists>results rest.
        execute api (add api kind params (new_group api (client w))) w = (Inr results, w')
        \<and> tx_ids results = tx_id r # rest
        \<and> wait_for_confirmation api (tx_id r) = Inr (confirmation r)"
  proof (cases outcome)
    case (Inl e)
    with run ex show ?thesis by (simp add: send_def)
  next
    case (Inr results)
    with run ex have "unwrap_single_send_result api results = Inr r" and "w1 = w'"
      by (simp_all add: send_def)
    with unwrap_single_send_result_returned [of api results r] ex Inr show ?thesis
      by auto
  qed
next
  assume "\<exists>results rest.
        execute api (add api kind params (new_group api (client w))) w = (Inr results, w')
        \<and> tx_ids results = tx_id r # rest
        \<and> wait_for_confirmation api (tx_id r) = Inr (confirmation r)"
  then obtain results rest
    where ex: "execute api (add api kind params (new_group api (client w))) w = (Inr results, w')"
      and ids: "tx_ids results = tx_id r # rest"
      and conf: "wait_for_confirmation api (tx_id r) = Inr (confirmation r)"
    by blast
  from ids conf have "unwrap_single_send_result api results = Inr r"
    by (simp add: unwrap_single_send_result_def)
  with ex show "send api kind params w = (Inr r, w')"
    by (simp add: send_def)
next
  show "snd (send api kind params w)
       = snd (execute api (add api kind params (new_group api (client w))) w)"
    by (simp add: send_def split: prod.split sum.split)
qed

theorem send_returns_first_transaction_witness:
  "execute (algokit_composer mock_services)
      (add (algokit_composer mock_services) MethodCall ''call''
         (new_group (algokit_composer mock_services) (client mock_world))) mock_world
     = (Inr \<lparr>tx_ids = [''id-call'', ''id-call+'']\<rparr>,
        mock_world\<lparr>submissions := [[''call'', ''call+'']]\<rparr>)
   \<and> wait_for_confirmation (algokit_composer mock_services) ''id-call'' = Inr 7
   \<and> send (algokit_composer mock_services) MethodCall ''call'' mock_world
     = (Inr \<lparr>confirmation = 7, tx_id = ''id-call''\<rparr>,
        mock_world\<lparr>submissions := [[''call'', ''call+'']]\<rparr>)
   \<and> send (algokit_composer mock_services) Payment ''pay'' mock_world
     = (Inr \<lparr>confirmation = 6, tx_id = ''id-pay''\<rparr>,
        mock_world\<lparr>submissions := [[''pay'']]\<rparr>)"
proof -
  let ?api = "algokit_composer mock_services"
  have ex: "execute ?api (add ?api MethodCall ''call'' (new_group ?api (client mock_world))) mock_world
     = (Inr \<lparr>tx_ids = [''id-call'', ''id-call+'']\<rparr>,
        mock_world\<lparr>submissions := [[''call'', ''call+'']]\<rparr>)"
    by (simp add: new_group_def algokit_composer_def composer_add_def composer_execute_def
        composer_build_group_def mock_services_def mock_assemble_def mock_world_def)
  have conf: "wait_for_confirmation ?api ''id-call'' = Inr 7"
    by (simp add: algokit_composer_def mock_services_def)
  have ex': "execute ?api (add ?api Payment ''pay'' (new_group ?api (client mock_world))) mock_world
     = (Inr \<lparr>tx_ids = [''id-pay'']\<rparr>, mock_world\<lparr>submissions := [[''pay'']]\<rparr>)"
    by (simp add: new_group_def algokit_composer_def composer_add_def composer_execute_def
        composer_build_group_def mock_services_def mock_assemble_def mock_world_def)
  have conf': "wait_for_confirmation ?api ''id-pay'' = Inr 6"
    by (simp add: algokit_composer_def mock_services_def)
  have call: "send ?api MethodCall ''call'' mock_world
     = (Inr \<lparr>confirmation = 7, tx_id = ''id-call''\<rparr>,
        mock_world\<lparr>submissions := [[''call'', ''call+'']]\<rparr>)"
    by (rule send_returns_first_transaction [THEN conjunct1, THEN iffD2])
      (simp add: ex conf)
  have pay: "send ?api Payment ''pay'' mock_world
     = (Inr \<lparr>confirmation = 6, tx_id = ''id-pay''\<rparr>, mock_world\<lparr>submissions := [[''pay'']]\<rparr>)"
    by (rule send_returns_first_transaction [THEN conjunct1, THEN iffD2])
      (simp add: ex' conf')
  from ex conf call pay show ?thesis by blast
qed

lemma composer_build_group_submissions:
  "submissions (snd (composer_build_group svc g w)) = submissions w"
  by (simp add: composer_build_group_def split: prod.split)

lemma transactions_world:
  "snd (transactions api kind params w)
     = snd (build_group api (add api kind params (new_group api (client w))) w)"
  by (simp add: transactions_def split: prod.split sum.split op_kind.split list.split)

text \<open>
  By contrast, a \<open>send\<close> through the composer whose group assembles reaches the
  submission endpoint once, with the whole group, and the id it returns is the id of the
  group's first transaction.
\<close>

lemma send_submits_group:
  assumes "assemble svc (composer_add kind params \<lparr>txns = [], validity_window = default_validity_window (client w)\<rparr>)
       (client w) = (Inr grp, c)"
  shows "submissions (snd (send (algokit_composer svc) kind params w)) = submissions w @ [map txn grp]"
    and "send (algokit_composer svc) kind params w = (Inr r, w') \<Longrightarrow>
       \<exists>first_txn rest. grp = first_txn # rest \<and> tx_id r = txid svc (txn first_txn)"
proof -
  let ?api = "algokit_composer svc"
  let ?g = "add ?api kind params (new_group ?api (client w))"
  have g: "?g = composer_add kind params \<lparr>txns = [], validity_window = default_validity_window (client w)\<rparr>"
    by (simp add: algokit_composer_def new_group_def)
  have built: "composer_build_group svc ?g w = (Inr grp, w\<lparr>client := c\<rparr>)"
    using assms by (simp add: g composer_build_group_def)
  show "submissions (snd (send ?api kind params w)) = submissions w @ [map txn grp]"
  proof (cases "accept svc (map txn grp)")
    case None
    with built have "execute ?api ?g w =
        (Inr \<lparr>tx_ids = map (txid svc) (map txn grp)\<rparr>,
         w\<lparr>client := c, submissions := submissions w @ [map txn grp]\<rparr>)"
      by (simp add: algokit_composer_def composer_execute_def new_group_def)
    then show ?thesis by (simp add: send_def)
  next
    case (Some e)
    with built have "execute ?api ?g w =
        (Inl e, w\<lparr>client := c, submissions := submissions w @ [map txn grp]\<rparr>)"
      by (simp add: algokit_composer_def composer_execute_def new_group_def)
    then show ?thesis by (simp add: send_def)
  qed
  assume run: "send ?api kind params w = (Inr r, w')"
  show "\<exists>first_txn rest. grp = first_txn # rest \<and> tx_id r = txid svc (txn first_txn)"
  proof (cases "accept svc (map txn grp)")
    case None
    with built have ex: "execute ?api ?g w =
        (Inr \<lparr>tx_ids = map (txid svc) (map txn grp)\<rparr>,
         w\<lparr>client := c, submissions := submissions w @ [map txn grp]\<rparr>)"
      by (simp add: algokit_composer_def composer_execute_def new_group_def)
    with run have "unwrap_single_send_result ?api \<lparr>tx_ids = map (txid svc) (map txn grp)\<rparr> = Inr r"
      by (simp add: send_def)
    from unwrap_single_send_result_returned [OF this]
    obtain rest where "map (txid svc) (map txn grp) = tx_id r # rest" by auto
    then show ?thesis by (cases grp) auto
  next
    case (Some e)
    with built have "execute ?api ?g w =
        (Inl e, w\<lparr>client := c, submissions := submissions w @ [map txn grp]\<rparr>)"
      by (simp add: algokit_composer_def composer_execute_def new_group_def)
    with run show ?thesis by (simp add: send_def)
  qed
qed

text \<open>
  Claim C6. For every operation, \<open>transactions\<close> makes one \<^verbatim>\<open>build_group()\<close> call on a
  new composer and nothing else: the world after it is the world after that call, and
  its outcome does not depend on what \<^verbatim>\<open>execute()\<close> does, the one method that submits.
  So with any composer whose \<^verbatim>\<open>build_group()\<close> leaves the ledger's submission endpoint
  alone, and with the composer of the specification in particular, the endpoint has
  received after \<open>transactions\<close> exactly what it had received before. For every operation
  but the method call, \<open>transactions\<close> returns a value exactly when the built group is
  not empty, and the value is the single transaction that comes first in the group; for
  the method call it returns exactly when the group is built, and the value is the list
  of the group's transactions in order.
\<close>

theorem transactions_build_only:
  "snd (transactions api kind params w)
       = snd (build_group api (add api kind params (new_group api (client w))) w)
   \<and> transactions (api\<lparr>execute := other\<rparr>) kind params w = transactions api kind params w
   \<and> ((\<forall>g w0. submissions (snd (build_group api g w0)) = submissions w0) \<longrightarrow>
        submissions (snd (transactions api kind params w)) = submissions w)
   \<and> submissions (snd (transactions (algokit_composer svc) kind params' w)) = submissions w
   \<and> (kind \<noteq> MethodCall \<longrightarrow>
        (fst (transactions api kind params w) = Inr r \<longleftrightarrow>
          (\<exists>first_txn rest.
             fst (build_group api (add api kind params (new_group api (client w))) w)
               = Inr (first_txn # rest)
             \<and> r = Transaction (txn first_txn))))
   \<and> (fst (transactions api MethodCall params w) = Inr r \<longleftrightarrow>
        (\<exists>grp.
           fst (build_group api (add api MethodCall params (new_group api (client w))) w) = Inr grp
           \<and> r = Transactions (map txn grp)))"
proof (intro conjI impI)
  show "snd (transactions api kind params w)
       = snd (build_group api (add api kind params (new_group api (client w))) w)"
    by (rule transactions_world)
  show "transactions (api\<lparr>execute := other\<rparr>) kind params w = transactions api kind params w"
    by (simp add: transactions_def new_group_def)
  show "submissions (snd (transactions (algokit_composer svc) kind params' w)) = submissions w"
    by (simp add: transactions_world) (simp add: algokit_composer_def composer_build_group_submissions)
next
  assume "\<forall>g w0. submissions (snd (build_group api g w0)) = submissions w0"
  then show "submissions (snd (transactions api kind params w)) = submissions w"
    by (simp add: transactions_world)
next
  assume kind: "kind \<noteq> MethodCall"
  obtain outcome w1 where b: "build_group api (add api kind params (new_group api (client w))) w = (outcome, w1)"
    by (cases "build_group api (add api kind params (new_group api (client w))) w")
  have single: "fst (transactions api kind params w) =
      (case outcome of
         Inl e \<Rightarrow> Inl e
       | Inr grp \<Rightarrow> (case grp of [] \<Rightarrow> Inl IndexError
                     | first_txn # rest \<Rightarrow> Inr (Transaction (txn first_txn))))"
    using kind b by (cases kind) (simp_all add: transactions_def split: sum.split list.split)
  show "fst (transactions api kind params w) = Inr r \<longleftrightarrow>
          (\<exists>first_txn rest.
             fst (build_group api (add api kind params (new_group api (client w))) w)
               = Inr (first_txn # rest)
             \<and> r = Transaction (txn first_txn))"
  proof (cases outcome)
    case (Inl e)
    with single b show ?thesis by simp
  next
    case (Inr grp)
    with single b show ?thesis by (cases grp) auto
  qed
next
  obtain outcome w1 where b: "build_group api (add api MethodCall params (new_group api (client w))) w = (outcome, w1)"
    by (cases "build_group api (add api MethodCall params (new_group api (client w))) w")
  have many: "fst (transactions api MethodCall params w) =
      (case outcome of Inl e \<Rightarrow> Inl e | Inr grp \<Rightarrow> Inr (Transactions (map txn grp)))"
    using b by (simp add: transactions_def split: sum.split)
  show "fst (transactions api MethodCall params w) = Inr r \<longleftrightarrow>
        (\<exists>grp.
           fst (build_group api (add api MethodCall params (new_group api (client w))) w) = Inr grp
           \<and> r = Transactions (map txn grp))"
    using many b by (cases outcome) auto
qed

theorem transactions_build_only_witness:
  "Payment \<noteq> MethodCall
   \<and> (\<forall>g w0. submissions (snd (build_group (algokit_composer mock_services) g w0)) = submissions w0)
   \<and> submissions (snd (transactions (algokit_composer mock_services) Payment ''pay'' mock_world))
       = submissions mock_world
   \<and> fst (build_group (algokit_composer mock_services)
            (add (algokit_composer mock_services) Payment ''pay''
               (new_group (algokit_composer mock_services) (client mock_world))) mock_world)
       = Inr [TransactionWithSigner ''pay'' (ExternalSigner ())]
   \<and> fst (transactions (algokit_composer mock_services) Payment ''pay'' mock_world)
       = Inr (Transaction ''pay'')
   \<and> fst (build_group (algokit_composer mock_services)
            (add (algokit_composer mock_services) MethodCall ''call''
               (new_group (algokit_composer mock_services) (client mock_world))) mock_world)
       = Inr [TransactionWithSigner ''call'' (ExternalSigner ()),
              TransactionWithSigner ''call+'' (ExternalSigner ())]
   \<and> fst (transactions (algokit_composer mock_services) MethodCall ''call'' mock_world)
       = Inr (Transactions [''call'', ''call+''])"
proof -
  let ?api = "algokit_composer mock_services"
  note main = transactions_build_only [where api = ?api and w = mock_world]
  have kind: "Payment \<noteq> MethodCall" by simp
  have quiet: "\<forall>g w0. submissions (snd (build_group ?api g w0)) = submissions w0"
    by (simp add: algokit_composer_def composer_build_group_submissions)
  have frame: "submissions (snd (transactions ?api Payment ''pay'' mock_world)) = submissions mock_world"
    using main [THEN conjunct2, THEN conjunct2, THEN conjunct1, THEN mp, OF quiet] .
  have built: "fst (build_group ?api (add ?api Payment ''pay'' (new_group ?api (client mock_world))) mock_world)
       = Inr [TransactionWithSigner ''pay'' (ExternalSigner ())]"
    by (simp add: new_group_def algokit_composer_def composer_add_def composer_build_group_def
        mock_services_def mock_assemble_def)
  have built': "fst (build_group ?api (add ?api MethodCall ''call'' (new_group ?api (client mock_world))) mock_world)
       = Inr [TransactionWithSigner ''call'' (ExternalSigner ()),
              TransactionWithSigner ''call+'' (ExternalSigner ())]"
    by (simp add: new_group_def algokit_composer_def composer_add_def composer_build_group_def
        mock_services_def mock_assemble_def)
  have single: "fst (transactions ?api Payment ''pay'' mock_world) = Inr (Transaction ''pay'')"
    by (rule main [THEN conjunct2, THEN conjunct2, THEN conjunct2, THEN conjunct2, THEN conjunct1,
          THEN mp, OF kind, THEN iffD2])
      (simp add: built)
  have many: "fst (transactions ?api MethodCall ''call'' mock_world)
       = Inr (Transactions [''call'', ''call+''])"
    by (rule main [THEN conjunct2, THEN conjunct2, THEN conjunct2, THEN conjunct2, THEN conjunct2,
          THEN iffD2])
      (simp add: built')
  from kind quiet frame built single built' many show ?thesis by blast
qed

end
